theory Spec2Isabelle
  imports Complex_Main "HOL-Library.Sublist"
begin

section \<open>The Metal retriever (langchain/retrievers/metal.py)\<close>

subsection \<open>Python values\<close>

text \<open>
  The values that travel through the retriever are the JSON-shaped values the search
  client returns and the values of the parameter dictionary: \<open>None\<close>, booleans, numbers,
  strings, lists, and dictionaries with string keys.  A dictionary is an association list
  in insertion order, which is the order \<open>dict.items()\<close> and iteration follow.
\<close>

datatype pyval =
    PNone
  | PBool bool
  | PInt int
  | PFloat real
  | PStr string
  | PList "pyval list"
  | PDict "(string \<times> pyval) list"

type_synonym pydict = "(string \<times> pyval) list"

text \<open>
  Exceptions.  \<open>KeyError\<close> carries the missing key and \<open>ValueError\<close> its message; the
  messages of \<open>TypeError\<close> and \<open>AttributeError\<close> depend on the interpreter version and are
  left out.  \<open>OtherError cls msg\<close> is an exception of any other class, as the external
  client may raise.
\<close>

datatype exn =
    ValueError string
  | KeyError string
  | TypeError
  | AttributeError
  | NotImplementedError
  | OtherError string string

text \<open>\<open>obj[key]\<close> for a string key: only a dictionary can be subscripted by a string.\<close>

fun getitem :: "pyval \<Rightarrow> string \<Rightarrow> exn + pyval" where
  "getitem (PDict d) k = (case map_of d k of None \<Rightarrow> Inl (KeyError k) | Some v \<Rightarrow> Inr v)"
| "getitem _ k = Inl TypeError"

text \<open>
  \<open>for r in obj\<close>: a list yields its elements, a dictionary its keys, a string its
  one-character substrings; nothing else here is iterable.
\<close>

fun iter :: "pyval \<Rightarrow> exn + pyval list" where
  "iter (PList xs) = Inr xs"
| "iter (PDict d) = Inr (map (\<lambda>kv. PStr (fst kv)) d)"
| "iter (PStr s) = Inr (map (\<lambda>c. PStr [c]) s)"
| "iter _ = Inl TypeError"

text \<open>\<open>r.items()\<close>: only a dictionary has the method.\<close>

fun items :: "pyval \<Rightarrow> exn + pydict" where
  "items (PDict d) = Inr d"
| "items _ = Inl AttributeError"

subsection \<open>The collaborators: client, document, store\<close>

text \<open>
  The external client (\<open>metal_sdk.metal.Metal\<close>) is opaque: its \<open>search\<close> method takes the
  positional query mapping and the keyword arguments, may change the outside world
  \<open>'w\<close> (the network, the remote index), and either raises or returns a value.  The
  keyword arguments arrive in a dictionary of their own, but their values are the very
  objects the caller's dictionary holds, so the client can change a list or a dictionary
  among them in place: the second component of the result is the list of the keyword
  arguments' values as the call leaves them, in the order of the arguments.
\<close>

record 'w Metal =
  search :: "pydict \<Rightarrow> pydict \<Rightarrow> 'w \<Rightarrow> (exn + pyval) \<times> pyval list \<times> 'w"

text \<open>
  The constructor's \<open>client: Any\<close>: an instance of \<open>Metal\<close> (or of a subclass), or an
  object of some other type.  Of the latter the code reads only \<open>type(client)\<close>, which the
  f-string formats with \<open>str\<close>; that text is the metaclass's to choose.  Such an object is
  given by the name of its type and by the text of \<open>str(type(client))\<close>.
\<close>

datatype 'w pyobject =
    MetalInst "'w Metal"
  | OtherInst string string


text \<open>
  Modelled from the spec: the class \<open>Document\<close> of \<open>langchain.schema\<close> is not part of
  the source file; the spec has it hold a content string and a mapping of metadata.
\<close>

record Document =
  page_content :: string
  metadata :: pydict

text \<open>
  Modelled from the spec: the constructor call \<open>Document(page_content=..., metadata=...)\<close>
  of that class.  A content that is a \<open>str\<close> is stored as it is, with the metadata.  What
  the validation of the class does with a content that is not a \<open>str\<close>, convert it or
  raise, is not in the source file: it is the parameter \<open>coerce\<close>.
\<close>

definition new_Document :: "(pyval \<Rightarrow> exn + string) \<Rightarrow> pyval \<Rightarrow> pydict \<Rightarrow> exn + Document" where
  "new_Document coerce content md =
     (case content of
        PStr c \<Rightarrow> Inr \<lparr>page_content = c, metadata = md\<rparr>
      | _ \<Rightarrow>
          (case coerce content of
             Inl e \<Rightarrow> Inl e
           | Inr c \<Rightarrow> Inr \<lparr>page_content = c, metadata = md\<rparr>))"

text \<open>
  Dictionaries are objects with identity: the store maps an address to the dictionary that
  lives there, and \<open>next_addr\<close> is the first address not yet allocated.  The state also
  holds the outside world of the client and a log of the search calls made so far, each
  with its positional query mapping and its keyword arguments.
\<close>

type_synonym addr = nat

record 'w state =
  heap :: "addr \<Rightarrow> pydict"
  next_addr :: addr
  world :: 'w
  calls :: "(pydict \<times> pydict) list"

text \<open>The expression \<open>{}\<close>: a new, empty dictionary at a fresh address.\<close>

definition new_dict :: "'w state \<Rightarrow> addr \<times> 'w state" where
  "new_dict s = (next_addr s, s\<lparr>heap := (heap s)(next_addr s := []), next_addr := Suc (next_addr s)\<rparr>)"

text \<open>
  What an object can become when it is changed in place: a list remains a list and a
  dictionary a dictionary, with any contents; every other value is immutable.
\<close>

fun in_place :: "pyval \<Rightarrow> pyval \<Rightarrow> pyval" where
  "in_place (PList xs) (PList ys) = PList ys"
| "in_place (PDict d) (PDict e) = PDict e"
| "in_place v v' = v"

text \<open>
  The dictionary that was unpacked with \<open>**\<close>, after the call: its keys are bound to the
  same objects as before, in the state the callee left them.
\<close>

fun write_back :: "pydict \<Rightarrow> pyval list \<Rightarrow> pydict" where
  "write_back [] vs = []"
| "write_back (kv # kvs) [] = kv # kvs"
| "write_back (kv # kvs) (v # vs) = (fst kv, in_place (snd kv) v) # write_back kvs vs"

text \<open>
  The call \<open>client.search(payload, **d)\<close> for the dictionary \<open>d\<close> at address \<open>p\<close>: it is
  logged, and the client runs on the outside world and on the values of \<open>d\<close>.
\<close>

definition call_search ::
  "'w Metal \<Rightarrow> pydict \<Rightarrow> addr \<Rightarrow> 'w state \<Rightarrow> (exn + pyval) \<times> 'w state" where
  "call_search c payload p s =
     (let kwargs = heap s p;
          (res, vs, w) = search c payload kwargs (world s)
      in (res, s\<lparr>heap := (heap s)(p := write_back kwargs vs),
                world := w,
                calls := calls s @ [(payload, kwargs)]\<rparr>))"

subsection \<open>The retriever\<close>

text \<open>The attributes of a \<open>MetalRetriever\<close>: the client and a reference to the parameters.\<close>

record 'w MetalRetriever =
  client :: "'w Metal"
  params :: addr

text \<open>
  \<open>__init__(self, client, params=None)\<close>.  A client of the wrong type raises
  \<open>ValueError\<close> before any attribute is set.  \<open>params or {}\<close> keeps the dictionary passed
  in when it is non-empty (the same object, by reference) and makes a new empty one when
  \<open>params\<close> is \<open>None\<close> or empty.  The import of \<open>metal_sdk\<close> at the top of the body is
  taken to succeed.
\<close>

definition init ::
  "'w pyobject \<Rightarrow> addr option \<Rightarrow> 'w state \<Rightarrow> (exn + 'w MetalRetriever) \<times> 'w state" where
  "init cl ps s =
     (case cl of
        OtherInst tn type_str \<Rightarrow>
          (Inl (ValueError
             (''Got unexpected client, should be of type metal_sdk.metal.Metal. ''
              @ ''Instead, got '' @ type_str)), s)
      | MetalInst c \<Rightarrow>
          (case ps of
             None \<Rightarrow>
               (let (a, s') = new_dict s in (Inr \<lparr>client = c, params = a\<rparr>, s'))
           | Some p \<Rightarrow>
               if heap s p \<noteq> [] then (Inr \<lparr>client = c, params = p\<rparr>, s)
               else (let (a, s') = new_dict s in (Inr \<lparr>client = c, params = a\<rparr>, s'))))"

text \<open>
  The body of the loop, for one record \<open>r\<close>: the metadata comprehension runs first, then
  \<open>r["text"]\<close> is read and the document is built.
\<close>

definition to_document :: "(pyval \<Rightarrow> exn + string) \<Rightarrow> pyval \<Rightarrow> exn + Document" where
  "to_document coerce r =
     (case items r of
        Inl e \<Rightarrow> Inl e
      | Inr kvs \<Rightarrow>
          (let md = filter (\<lambda>kv. fst kv \<noteq> ''text'') kvs in
           case getitem r ''text'' of
             Inl e \<Rightarrow> Inl e
           | Inr t \<Rightarrow> new_Document coerce t md))"

text \<open>The loop over the records, appending to \<open>final_results\<close>; an exception ends it.\<close>

fun collect ::
  "(pyval \<Rightarrow> exn + string) \<Rightarrow> pyval list \<Rightarrow> Document list \<Rightarrow> exn + Document list" where
  "collect coerce [] final_results = Inr final_results"
| "collect coerce (r # rs) final_results =
     (case to_document coerce r of
        Inl e \<Rightarrow> Inl e
      | Inr d \<Rightarrow> collect coerce rs (final_results @ [d]))"

text \<open>What follows the search call: \<open>results["data"]\<close>, its iteration, the loop.\<close>

definition convert :: "(pyval \<Rightarrow> exn + string) \<Rightarrow> pyval \<Rightarrow> exn + Document list" where
  "convert coerce results =
     (case getitem results ''data'' of
        Inl e \<Rightarrow> Inl e
      | Inr data \<Rightarrow>
          (case iter data of
             Inl e \<Rightarrow> Inl e
           | Inr rs \<Rightarrow> collect coerce rs []))"

text \<open>
  \<open>_get_relevant_documents(self, query, *, run_manager, **kwargs)\<close>.  The result is the
  outcome, the retriever as the call leaves it, and the state.  Neither \<open>run_manager\<close>
  nor \<open>kwargs\<close> is used by the body.  The first argument is the parameter of
  \<open>new_Document\<close>.
\<close>

definition get_relevant_documents ::
  "(pyval \<Rightarrow> exn + string) \<Rightarrow> 'w MetalRetriever \<Rightarrow> string \<Rightarrow> 'm \<Rightarrow> pydict \<Rightarrow> 'w state
     \<Rightarrow> (exn + Document list) \<times> 'w MetalRetriever \<times> 'w state" where
  "get_relevant_documents coerce self query run_manager kwargs s =
     (let (res, s') = call_search (client self) [(''text'', PStr query)] (params self) s
      in case res of
           Inl e \<Rightarrow> (Inl e, self, s')
         | Inr results \<Rightarrow> (convert coerce results, self, s'))"

text \<open>
  \<open>_aget_relevant_documents\<close>, as awaited by its caller: the body is a single
  \<open>raise NotImplementedError\<close>.
\<close>

definition aget_relevant_documents ::
  "'w MetalRetriever \<Rightarrow> string \<Rightarrow> 'm \<Rightarrow> pydict \<Rightarrow> 'w state
     \<Rightarrow> (exn + Document list) \<times> 'w MetalRetriever \<times> 'w state" where
  "aget_relevant_documents self query run_manager kwargs s = (Inl NotImplementedError, self, s)"

subsection \<open>Client stubs, example states, a caller\<close>

text \<open>
  A client stub that answers every search with the same outcome, leaves its arguments as
  they are, and counts the requests it has served in the outside world.
\<close>

definition stub_client :: "(exn + pyval) \<Rightarrow> nat Metal" where
  "stub_client resp = \<lparr>search = (\<lambda>payload kwargs w. (resp, map snd kwargs, Suc w))\<rparr>"


text \<open>A validation of the document's content that refuses whatever is not a \<open>str\<close>.\<close>

definition reject_content :: "pyval \<Rightarrow> exn + string" where
  "reject_content v = Inl (OtherError ''ValidationError'' ''str type expected'')"

text \<open>The response \<open>{"data": [{"text": "a", "score": 0.9}, {"text": "b", "score": 0.5}]}\<close>.\<close>

definition example_response :: "exn + pyval" where
  "example_response =
     Inr (PDict [(''data'', PList
       [PDict [(''text'', PStr ''a''), (''score'', PFloat (9 / 10))],
        PDict [(''text'', PStr ''b''), (''score'', PFloat (5 / 10))]])])"

text \<open>
  The response \<open>{"data": [{"text": "a"}, {"score": 1}, 7]}\<close>: the second record has no
  text, and what follows it is not even a record.
\<close>

definition textless_response :: "exn + pyval" where
  "textless_response =
     Inr (PDict [(''data'', PList
       [PDict [(''text'', PStr ''a'')], PDict [(''score'', PInt 1)], PInt 7])])"

text \<open>The response \<open>{"results": []}\<close>: there is no \<open>"data"\<close>.\<close>

definition dataless_response :: "exn + pyval" where
  "dataless_response = Inr (PDict [(''results'', PList [])])"

text \<open>A state with no dictionary allocated yet.\<close>

definition state0 :: "nat state" where
  "state0 = \<lparr>heap = (\<lambda>a. []), next_addr = 0, world = 0, calls = []\<rparr>"

text \<open>A state in which the caller holds the dictionary \<open>{"limit": 5}\<close> at address 0.\<close>

definition state1 :: "nat state" where
  "state1 = \<lparr>heap = (\<lambda>a. [])(0 := [(''limit'', PInt 5)]), next_addr = 1, world = 0, calls = []\<rparr>"

text \<open>A state in which the caller holds an empty dictionary at address 0.\<close>

definition state2 :: "nat state" where
  "state2 = \<lparr>heap = (\<lambda>a. []), next_addr = 1, world = 0, calls = []\<rparr>"


text \<open>
  A caller that sends the queries one after the other to the same retriever, whatever
  each of them returns or raises.
\<close>

fun run_queries ::
  "(pyval \<Rightarrow> exn + string) \<Rightarrow> 'w MetalRetriever \<Rightarrow> string list \<Rightarrow> 'w state \<Rightarrow> 'w state" where
  "run_queries coerce self [] s = s"
| "run_queries coerce self (q # qs) s =
     (case get_relevant_documents coerce self q () [] s of
        (res, self', s') \<Rightarrow> run_queries coerce self' qs s')"


section \<open>Properties\<close>

subsection \<open>Auxiliary facts\<close>

lemma get_relevant_documents_unfold:
  assumes "search (client self) [(''text'', PStr query)] (heap s (params self)) (world s)
             = (res, vs, w)"
  shows "get_relevant_documents coerce self query rm kw s =
     (case res of Inl e \<Rightarrow> Inl e | Inr results \<Rightarrow> convert coerce results,
      self,
      s\<lparr>heap := (heap s)(params self := write_back (heap s (params self)) vs),
        world := w,
        calls := calls s @ [([(''text'', PStr query)], heap s (params self))]\<rparr>)"
  using assms
  by (simp add: get_relevant_documents_def call_search_def Let_def split: sum.splits)






lemma map_of_filter_other_keys:
  "map_of (filter (\<lambda>kv. fst kv \<noteq> t) d) k = (if k = t then None else map_of d k)"
  by (induction d) auto

lemma to_document_text:
  "map_of d ''text'' = Some (PStr t) \<Longrightarrow>
   to_document coerce (PDict d) =
     Inr \<lparr>page_content = t, metadata = filter (\<lambda>kv. fst kv \<noteq> ''text'') d\<rparr>"
  by (simp add: to_document_def new_Document_def)

lemma to_document_no_text:
  "''text'' \<notin> fst ` set d \<Longrightarrow> to_document coerce (PDict d) = Inl (KeyError ''text'')"
proof -
  assume "''text'' \<notin> fst ` set d"
  then have "map_of d ''text'' = None" by (simp add: map_of_eq_None_iff)
  then show ?thesis by (simp add: to_document_def)
qed

lemma collect_all_text:
  "\<forall>d\<in>set ds. \<exists>t. map_of d ''text'' = Some (PStr t) \<Longrightarrow>
   collect coerce (map PDict ds @ rest) acc =
     collect coerce rest
       (acc @ map (\<lambda>d. \<lparr>page_content = (case map_of d ''text'' of Some (PStr t) \<Rightarrow> t | _ \<Rightarrow> []),
                         metadata = filter (\<lambda>kv. fst kv \<noteq> ''text'') d\<rparr>) ds)"
proof (induction ds arbitrary: acc)
  case Nil
  then show ?case by simp
next
  case (Cons d ds)
  from Cons.prems obtain t where t: "map_of d ''text'' = Some (PStr t)" by auto
  from Cons.prems have rest: "\<forall>d\<in>set ds. \<exists>t. map_of d ''text'' = Some (PStr t)" by simp
  show ?case
    using Cons.IH [OF rest] t by (simp add: to_document_text)
qed

lemma run_queries_no_params:
  "heap s (params self) = [] \<Longrightarrow>
   calls (run_queries coerce self qs s) = calls s @ map (\<lambda>q. ([(''text'', PStr q)], [])) qs"
proof (induction qs arbitrary: s)
  case Nil
  then show ?case by simp
next
  case (Cons q qs)
  obtain res vs w where call:
    "search (client self) [(''text'', PStr q)] (heap s (params self)) (world s) = (res, vs, w)"
    by (cases "search (client self) [(''text'', PStr q)] (heap s (params self)) (world s)") auto
  let ?s' = "s\<lparr>heap := (heap s)(params self := write_back (heap s (params self)) vs),
               world := w,
               calls := calls s @ [([(''text'', PStr q)], heap s (params self))]\<rparr>"
  from Cons.prems have "heap ?s' (params self) = []" by simp
  from Cons.IH [OF this] Cons.prems show ?case
    by (simp add: get_relevant_documents_unfold [OF call])
qed

subsection \<open>Retrieval\<close>

text \<open>
  Claim C1.  When the client returns a mapping whose \<open>"data"\<close> is a list of records that
  all have a \<open>"text"\<close> key with a string for its value, the retrieval returns one
  document per record, in the order of the records: the content of the \<open>i\<close>-th document
  is the \<open>"text"\<close> value of the \<open>i\<close>-th record, and its metadata are the other items of
  that record, in their order, so that looking a key up in the metadata gives nothing for
  \<open>"text"\<close> and the record's value for every other key.  No record gives no document.
\<close>

theorem retrieve_documents_in_order:
  assumes "search (client self) [(''text'', PStr query)] (heap s (params self)) (world s)
             = (Inr (PDict res), vs, w)"
    and "map_of res ''data'' = Some (PList (map PDict ds))"
    and "\<forall>d\<in>set ds. \<exists>t. map_of d ''text'' = Some (PStr t)"
  shows "\<exists>docs. fst (get_relevant_documents coerce self query rm kw s) = Inr docs \<and>
           length docs = length ds \<and>
           (\<forall>i<length ds.
              map_of (ds ! i) ''text'' = Some (PStr (page_content (docs ! i))) \<and>
              metadata (docs ! i) = filter (\<lambda>kv. fst kv \<noteq> ''text'') (ds ! i) \<and>
              (\<forall>k. map_of (metadata (docs ! i)) k =
                     (if k = ''text'' then None else map_of (ds ! i) k))) \<and>
           (ds = [] \<longrightarrow> docs = [])"
proof -
  let ?docs = "map (\<lambda>d. \<lparr>page_content = (case map_of d ''text'' of Some (PStr t) \<Rightarrow> t | _ \<Rightarrow> []),
                           metadata = filter (\<lambda>kv. fst kv \<noteq> ''text'') d\<rparr>) ds"
  have "fst (get_relevant_documents coerce self query rm kw s) = Inr ?docs"
    using assms(2) collect_all_text [OF assms(3), of coerce "[]" "[]"]
    by (simp add: get_relevant_documents_unfold [OF assms(1)] convert_def)
  moreover have "map_of (ds ! i) ''text'' =
      Some (PStr (case map_of (ds ! i) ''text'' of Some (PStr t) \<Rightarrow> t | _ \<Rightarrow> []))"
    if "i < length ds" for i
  proof -
    from that assms(3) obtain t where "map_of (ds ! i) ''text'' = Some (PStr t)"
      using nth_mem by blast
    then show ?thesis by simp
  qed
  ultimately show ?thesis
    by (intro exI [of _ ?docs]) (simp add: map_of_filter_other_keys)
qed

theorem retrieve_documents_in_order_witness:
  "fst (get_relevant_documents reject_content
          \<lparr>client = stub_client example_response, params = 0\<rparr> ''q'' () [] state0) =
     Inr [\<lparr>page_content = ''a'', metadata = [(''score'', PFloat (9 / 10))]\<rparr>,
          \<lparr>page_content = ''b'', metadata = [(''score'', PFloat (5 / 10))]\<rparr>]"
proof -
  have call: "search (client \<lparr>client = stub_client example_response, params = 0\<rparr>)
      [(''text'', PStr ''q'')] (heap state0 (params \<lparr>client = stub_client example_response, params = 0\<rparr>))
      (world state0) =
      (Inr (PDict [(''data'', PList (map PDict
         [[(''text'', PStr ''a''), (''score'', PFloat (9 / 10))],
          [(''text'', PStr ''b''), (''score'', PFloat (5 / 10))]]))]), [], 1)"
    by (simp add: stub_client_def example_response_def state0_def)
  from retrieve_documents_in_order [OF call, of "[[(''text'', PStr ''a''), (''score'', PFloat (9 / 10))],
          [(''text'', PStr ''b''), (''score'', PFloat (5 / 10))]]" reject_content "()" "[]"]
  obtain docs where docs:
    "fst (get_relevant_documents reject_content
          \<lparr>client = stub_client example_response, params = 0\<rparr> ''q'' () [] state0) = Inr docs"
    "length docs = 2"
    "\<forall>i<2. map_of ([[(''text'', PStr ''a''), (''score'', PFloat (9 / 10))],
          [(''text'', PStr ''b''), (''score'', PFloat (5 / 10))]] ! i) ''text''
            = Some (PStr (page_content (docs ! i))) \<and>
          metadata (docs ! i) = filter (\<lambda>kv. fst kv \<noteq> ''text'')
            ([[(''text'', PStr ''a''), (''score'', PFloat (9 / 10))],
          [(''text'', PStr ''b''), (''score'', PFloat (5 / 10))]] ! i)"
    by auto
  from docs(3) have "page_content (docs ! 0) = ''a''" "page_content (docs ! 1) = ''b''"
    "metadata (docs ! 0) = [(''score'', PFloat (9 / 10))]"
    "metadata (docs ! 1) = [(''score'', PFloat (5 / 10))]"
    by (auto simp: numeral_2_eq_2 less_Suc_eq)
  moreover from docs(2) obtain a b where "docs = [a, b]"
    by (cases docs; cases "tl docs"; cases "tl (tl docs)") auto
  ultimately show ?thesis using docs(1) by simp
qed

text \<open>
  Claim C2.  Every retrieval applies the search of the stored client, once, to the query
  mapping \<open>{"text": query}\<close> as its argument and the stored parameters as its keyword
  arguments: the log has that call more, the outside world is the one this application
  leaves, and the outcome of the retrieval comes from its result.
\<close>

theorem retrieve_calls_search_with_params:
  assumes "search (client self) [(''text'', PStr query)] (heap s (params self)) (world s)
             = (res, vs, w)"
  shows "calls (snd (snd (get_relevant_documents coerce self query rm kw s))) =
           calls s @ [([(''text'', PStr query)], heap s (params self))] \<and>
         world (snd (snd (get_relevant_documents coerce self query rm kw s))) = w \<and>
         fst (get_relevant_documents coerce self query rm kw s) =
           (case res of Inl e \<Rightarrow> Inl e | Inr results \<Rightarrow> convert coerce results)"
  by (simp add: get_relevant_documents_unfold [OF assms])

theorem retrieve_calls_search_with_params_witness:
  "calls (snd (snd (get_relevant_documents reject_content
      \<lparr>client = stub_client example_response, params = 0\<rparr> ''q'' () [] state1))) =
     [([(''text'', PStr ''q'')], [(''limit'', PInt 5)])] \<and>
   world (snd (snd (get_relevant_documents reject_content
      \<lparr>client = stub_client example_response, params = 0\<rparr> ''q'' () [] state1))) = 1"
proof -
  have call: "search (client \<lparr>client = stub_client example_response, params = 0\<rparr>)
      [(''text'', PStr ''q'')]
      (heap state1 (params \<lparr>client = stub_client example_response, params = 0\<rparr>))
      (world state1) = (example_response, [PInt 5], 1)"
    by (simp add: stub_client_def state1_def)
  from retrieve_calls_search_with_params [OF call, of reject_content "()" "[]"]
  show ?thesis by (simp add: state1_def)
qed

text \<open>
  Claim C4.  When the client returns a mapping whose \<open>"data"\<close> is a list in which a
  record has no \<open>"text"\<close> key, and the records before it have a string for their text,
  the retrieval raises the \<open>KeyError\<close> of that lookup and returns no document; no content
  is put in its place.  What follows that record in the list is not looked at.
\<close>

theorem retrieve_missing_text_raises:
  assumes "search (client self) [(''text'', PStr query)] (heap s (params self)) (world s)
             = (Inr (PDict res), vs, w)"
    and "map_of res ''data'' = Some (PList (map PDict ds @ PDict d # rest))"
    and "\<forall>d'\<in>set ds. \<exists>t. map_of d' ''text'' = Some (PStr t)"
    and "''text'' \<notin> fst ` set d"
  shows "fst (get_relevant_documents coerce self query rm kw s) = Inl (KeyError ''text'')"
  using assms(2) collect_all_text [OF assms(3), of coerce "PDict d # rest" "[]"]
    to_document_no_text [OF assms(4), of coerce]
  by (simp add: get_relevant_documents_unfold [OF assms(1)] convert_def)

theorem retrieve_missing_text_raises_witness:
  "fst (get_relevant_documents reject_content
          \<lparr>client = stub_client textless_response, params = 0\<rparr> ''q'' () [] state0) =
     Inl (KeyError ''text'')"
proof -
  have call: "search (client \<lparr>client = stub_client textless_response, params = 0\<rparr>)
      [(''text'', PStr ''q'')]
      (heap state0 (params \<lparr>client = stub_client textless_response, params = 0\<rparr>))
      (world state0) =
      (Inr (PDict [(''data'', PList (map PDict [[(''text'', PStr ''a'')]]
          @ PDict [(''score'', PInt 1)] # [PInt 7]))]), [], 1)"
    by (simp add: stub_client_def textless_response_def state0_def)
  from retrieve_missing_text_raises
    [OF call, of "[[(''text'', PStr ''a'')]]" "[(''score'', PInt 1)]" "[PInt 7]"
      reject_content "()" "[]"]
  show ?thesis by simp
qed

text \<open>
  Claim C5.  When the client's search raises an error, the retrieval raises that same
  error: the outcome is the client's error itself, no document is returned, and the
  search has been called once, not again.
\<close>

theorem retrieve_propagates_client_error:
  assumes "search (client self) [(''text'', PStr query)] (heap s (params self)) (world s)
             = (Inl e, vs, w)"
  shows "get_relevant_documents coerce self query rm kw s =
     (Inl e, self,
      s\<lparr>heap := (heap s)(params self := write_back (heap s (params self)) vs),
        world := w,
        calls := calls s @ [([(''text'', PStr query)], heap s (params self))]\<rparr>)"
  by (simp add: get_relevant_documents_unfold [OF assms])

theorem retrieve_propagates_client_error_witness:
  "get_relevant_documents reject_content
     \<lparr>client = stub_client (Inl (OtherError ''ConnectionError'' ''timed out'')), params = 0\<rparr>
     ''q'' () [] state0 =
     (Inl (OtherError ''ConnectionError'' ''timed out''),
      \<lparr>client = stub_client (Inl (OtherError ''ConnectionError'' ''timed out'')), params = 0\<rparr>,
      state0\<lparr>world := 1, calls := [([(''text'', PStr ''q'')], [])]\<rparr>)"
proof -
  have call: "search
      (client \<lparr>client = stub_client (Inl (OtherError ''ConnectionError'' ''timed out'')),
               params = 0\<rparr>)
      [(''text'', PStr ''q'')]
      (heap state0 (params \<lparr>client = stub_client (Inl (OtherError ''ConnectionError'' ''timed out'')),
               params = 0\<rparr>))
      (world state0) = (Inl (OtherError ''ConnectionError'' ''timed out''), [], 1)"
    by (simp add: stub_client_def state0_def)
  from retrieve_propagates_client_error [OF call, of reject_content "()" "[]"]
  show ?thesis by (simp add: state0_def fun_upd_idem)
qed




text \<open>
  Claim C9.  When the client returns a mapping without a \<open>"data"\<close> key, the retrieval
  raises the \<open>KeyError\<close> of that lookup and returns no document.
\<close>

theorem retrieve_missing_data_raises:
  assumes "search (client self) [(''text'', PStr query)] (heap s (params self)) (world s)
             = (Inr (PDict res), vs, w)"
    and "map_of res ''data'' = None"
  shows "fst (get_relevant_documents coerce self query rm kw s) = Inl (KeyError ''data'')"
  using assms(2) by (simp add: get_relevant_documents_unfold [OF assms(1)] convert_def)

theorem retrieve_missing_data_raises_witness:
  "fst (get_relevant_documents reject_content
          \<lparr>client = stub_client dataless_response, params = 0\<rparr> ''q'' () [] state0) =
     Inl (KeyError ''data'')"
proof -
  have call: "search (client \<lparr>client = stub_client dataless_response, params = 0\<rparr>)
      [(''text'', PStr ''q'')]
      (heap state0 (params \<lparr>client = stub_client dataless_response, params = 0\<rparr>))
      (world state0) = (Inr (PDict [(''results'', PList [])]), [], 1)"
    by (simp add: stub_client_def dataless_response_def state0_def)
  show ?thesis
    by (rule retrieve_missing_data_raises [OF call]) simp
qed

subsection \<open>Asynchronous retrieval\<close>

text \<open>
  Claim C6.  For every query, the empty one too, the asynchronous retrieval raises
  \<open>NotImplementedError\<close>: it returns no document, and it leaves the retriever and the
  state as they were, so the client has not been called.
\<close>

theorem aget_not_implemented:
  "fst (aget_relevant_documents self query rm kw s) = Inl NotImplementedError \<and>
   snd (aget_relevant_documents self query rm kw s) = (self, s) \<and>
   calls (snd (snd (aget_relevant_documents self query rm kw s))) = calls s"
  by (simp add: aget_relevant_documents_def)

subsection \<open>Construction\<close>




text \<open>
  Claim C7, as the code has it.  Constructing the retriever with a \<open>Metal\<close> instance
  succeeds and stores the client.  When a non-empty parameter mapping is passed, the
  retriever stores that very mapping, by reference, and the state is unchanged: nothing
  is copied.  When no mapping or an empty one is passed, the retriever stores a new
  empty mapping at a fresh address.
\<close>

theorem init_stores_client_and_params:
  "\<exists>r s'. init (MetalInst c) ps s = (Inr r, s') \<and> client r = c \<and>
     (if \<exists>p. ps = Some p \<and> heap s p \<noteq> []
      then ps = Some (params r) \<and> s' = s
      else params r = next_addr s \<and>
           s' = s\<lparr>heap := (heap s)(next_addr s := []), next_addr := Suc (next_addr s)\<rparr>)"
  by (cases ps) (simp_all add: init_def new_dict_def)

text \<open>
  The claim C7 as the specification words it, that the mapping is copied at construction,
  fails.  The caller holds \<open>{"limit": 5}\<close> at address 0 and passes it: the retriever's
  parameters are the dictionary at address 0 itself and no dictionary has been
  allocated; and once the caller has set \<open>"limit"\<close> to 10 in its own dictionary, the next
  search receives \<open>limit=10\<close>.
\<close>

theorem init_params_not_copied:
  "init (MetalInst (stub_client (Inr PNone))) (Some 0) state1 =
     (Inr \<lparr>client = stub_client (Inr PNone), params = 0\<rparr>, state1) \<and>
   calls (snd (snd (get_relevant_documents reject_content
      \<lparr>client = stub_client (Inr PNone), params = 0\<rparr> ''q'' () []
      (state1\<lparr>heap := (heap state1)(0 := [(''limit'', PInt 10)])\<rparr>)))) =
     [([(''text'', PStr ''q'')], [(''limit'', PInt 10)])]"
  by (simp add: init_def state1_def stub_client_def get_relevant_documents_def
      call_search_def Let_def)

text \<open>
  Claim C10.  Passing an empty parameter mapping is the same as passing none: the two
  constructions give the same retriever and the same state, the stored mapping is a new
  empty one, and every search call of the queries that follow receives no keyword
  argument.
\<close>

theorem init_empty_params_same_as_none:
  assumes "heap s p = []"
  shows "init (MetalInst c) (Some p) s = init (MetalInst c) None s \<and>
         (\<exists>r s'. init (MetalInst c) (Some p) s = (Inr r, s') \<and>
            heap s' (params r) = [] \<and>
            calls (run_queries coerce r qs s') =
              calls s @ map (\<lambda>q. ([(''text'', PStr q)], [])) qs)"
  using assms by (simp add: init_def new_dict_def run_queries_no_params)

theorem init_empty_params_same_as_none_witness:
  "init (MetalInst (stub_client (Inr PNone))) (Some 0) state2 =
     init (MetalInst (stub_client (Inr PNone))) None state2 \<and>
   fst (init (MetalInst (stub_client (Inr PNone))) (Some 0) state2) =
     Inr \<lparr>client = stub_client (Inr PNone), params = 1\<rparr> \<and>
   calls (run_queries reject_content
      \<lparr>client = stub_client (Inr PNone), params = 1\<rparr> [''a'', ''b'']
      (snd (init (MetalInst (stub_client (Inr PNone))) (Some 0) state2))) =
     [([(''text'', PStr ''a'')], []), ([(''text'', PStr ''b'')], [])]"
  using init_empty_params_same_as_none
    [of state2 0 "stub_client (Inr PNone)" reject_content "[''a'', ''b'']"]
  by (simp add: init_def new_dict_def state2_def run_queries_no_params)

end
